theory Spec2Isabelle
  imports Main "HOL-Library.Word"
begin

section \<open>Python strings\<close>

text \<open>
  A Python \<open>str\<close> is a sequence of Unicode code points, so a string is a list of
  code points here. \<open>ascii\<close> embeds an ASCII literal. A text file holds the string
  that was written to it; of the UTF-8 encoding only its failure on a lone surrogate
  is kept (see \<open>encodable\<close>).
\<close>

type_synonym pystr = "nat list"

definition ascii :: "string \<Rightarrow> pystr" where
  "ascii s = map of_char s"

text \<open>
  \<open>str.isspace\<close> of one code point, which is what \<open>str.strip()\<close> without an
  argument removes: U+0009..U+000D, U+001C..U+0020, U+0085, U+00A0, U+1680,
  U+2000..U+200A, U+2028, U+2029, U+202F, U+205F and U+3000.
\<close>

definition isspace :: "nat \<Rightarrow> bool" where
  "isspace c =
     ((9 \<le> c \<and> c \<le> 13) \<or> (28 \<le> c \<and> c \<le> 32) \<or> c = 133 \<or> c = 160 \<or> c = 5760
      \<or> (8192 \<le> c \<and> c \<le> 8202) \<or> c = 8232 \<or> c = 8233 \<or> c = 8239 \<or> c = 8287
      \<or> c = 12288)"

definition lstrip :: "pystr \<Rightarrow> pystr" where
  "lstrip s = dropWhile isspace s"

definition rstrip :: "pystr \<Rightarrow> pystr" where
  "rstrip s = rev (dropWhile isspace (rev s))"

definition strip :: "pystr \<Rightarrow> pystr" where
  "strip s = rstrip (lstrip s)"

text \<open>
  \<open>s.split(sep)\<close> for a separator of one character: the pieces between the
  occurrences of \<open>sep\<close>, never an empty list.
\<close>

fun split :: "nat \<Rightarrow> pystr \<Rightarrow> pystr list" where
  "split sep [] = [[]]"
| "split sep (c # cs) =
     (if c = sep then [] # split sep cs
      else (case split sep cs of
              [] \<Rightarrow> [[c]]
            | p # ps \<Rightarrow> (c # p) # ps))"

text \<open>\<open>str(n)\<close> of a natural number: its decimal digits.\<close>

fun str_of_nat :: "nat \<Rightarrow> pystr" where
  "str_of_nat n =
     (if n < 10 then [48 + n] else str_of_nat (n div 10) @ [48 + n mod 10])"

declare str_of_nat.simps [simp del]

section \<open>Filename sanitisation\<close>

text \<open>
  The character class of the regular expression in \<open>_clean_filename\<close>:
  backslash, slash, asterisk, question mark, colon, double quote, less-than,
  greater-than and vertical bar.
\<close>

definition forbidden :: "nat list" where
  "forbidden = [92, 47, 42, 63, 58, 34, 60, 62, 124]"

definition re_sub_forbidden :: "pystr \<Rightarrow> pystr" where
  "re_sub_forbidden text = filter (\<lambda>c. c \<notin> set forbidden) text"

definition clean_filename :: "pystr \<Rightarrow> pystr" where
  "clean_filename text = strip (re_sub_forbidden text)"

section \<open>Paths and the filesystem\<close>

text \<open>
  An absolute path is the list of its components below the root; the root is the
  empty list. \<open>path_parts\<close> is how \<open>pathlib\<close> reads a string: split at every
  slash, empty and \<open>.\<close> components dropped. \<open>joinpath p s\<close> is \<open>p / s\<close>:
  a string that starts with a slash replaces \<open>p\<close>. The filesystem is keyed by
  these lexical paths (no symbolic links, \<open>..\<close> is a name like any other).
\<close>

type_synonym path = "pystr list"

definition path_parts :: "pystr \<Rightarrow> pystr list" where
  "path_parts s = filter (\<lambda>p. p \<noteq> [] \<and> p \<noteq> ascii ''.'') (split 47 s)"

definition joinpath :: "path \<Rightarrow> pystr \<Rightarrow> path" where
  "joinpath p s = (if take 1 s = [47] then path_parts s else p @ path_parts s)"

definition parent :: "path \<Rightarrow> path" where
  "parent p = butlast p"

definition parents :: "path \<Rightarrow> path list" where
  "parents p = map (\<lambda>k. take k p) (rev [0..<length p])"

datatype content = Text pystr | Binary "8 word list"

record filesystem =
  files :: "path \<rightharpoonup> content"
  dirs :: "path set"
  readonly :: "path set"

definition is_dir :: "filesystem \<Rightarrow> path \<Rightarrow> bool" where
  "is_dir f p = (p = [] \<or> p \<in> dirs f)"

definition path_exists :: "filesystem \<Rightarrow> path \<Rightarrow> bool" where
  "path_exists f p = (is_dir f p \<or> files f p \<noteq> None)"

section \<open>Exceptions\<close>

text \<open>
  The exceptions the program can meet; a \<open>KeyError\<close> carries the key that was
  not found (a string, an integer or a slice). \<open>requests.RequestException\<close> covers
  \<open>ConnectionError\<close> (any failure of \<open>session.get\<close> to obtain a response) and
  \<open>HTTPError\<close> (raised by \<open>raise_for_status\<close>); it is itself a subclass of
  \<open>IOError\<close>, which is \<open>OSError\<close>.
\<close>

datatype pykey = KStr pystr | KInt int | KSlice

datatype exn =
    ConnectionError
  | HTTPError nat
  | KeyError pykey
  | IndexError
  | TypeError
  | AttributeError
  | UnicodeEncodeError
  | FileExistsError
  | FileNotFoundError
  | NotADirectoryError
  | IsADirectoryError
  | PermissionError

fun is_RequestException :: "exn \<Rightarrow> bool" where
  "is_RequestException ConnectionError = True"
| "is_RequestException (HTTPError st) = True"
| "is_RequestException e = False"

fun is_KeyError :: "exn \<Rightarrow> bool" where
  "is_KeyError (KeyError k) = True"
| "is_KeyError e = False"

fun is_IndexError :: "exn \<Rightarrow> bool" where
  "is_IndexError IndexError = True"
| "is_IndexError e = False"

text \<open>
  \<open>IOError\<close> is \<open>OSError\<close>: the errors of the operating system and, by
  inheritance, \<open>RequestException\<close>. \<open>KeyError\<close>, \<open>IndexError\<close>, \<open>TypeError\<close>,
  \<open>AttributeError\<close> and \<open>UnicodeEncodeError\<close> are not among them.
\<close>

fun is_IOError :: "exn \<Rightarrow> bool" where
  "is_IOError ConnectionError = True"
| "is_IOError (HTTPError st) = True"
| "is_IOError FileExistsError = True"
| "is_IOError FileNotFoundError = True"
| "is_IOError NotADirectoryError = True"
| "is_IOError IsADirectoryError = True"
| "is_IOError PermissionError = True"
| "is_IOError e = False"

subsection \<open>Operations of the operating system\<close>

text \<open>
  The kernel resolves the directories of a path from the root: the first one that
  is missing gives \<open>ENOENT\<close>, the first one that is a file gives \<open>ENOTDIR\<close>.
\<close>

fun walk :: "filesystem \<Rightarrow> path \<Rightarrow> pystr list \<Rightarrow> exn option" where
  "walk f base [] = None"
| "walk f base (c # cs) =
     (if is_dir f (base @ [c]) then walk f (base @ [c]) cs
      else if files f (base @ [c]) \<noteq> None then Some NotADirectoryError
      else Some FileNotFoundError)"

text \<open>
  \<open>with open(p, mode) as f: f.write(data)\<close> with a writing mode: the file is
  created or truncated and receives \<open>data\<close>. A path in \<open>readonly\<close> cannot be
  modified, and no entry can be created in a directory in \<open>readonly\<close>.
\<close>

definition open_write :: "filesystem \<Rightarrow> path \<Rightarrow> content \<Rightarrow> exn + filesystem" where
  "open_write f p data =
     (case walk f [] (butlast p) of
        Some e \<Rightarrow> Inl e
      | None \<Rightarrow>
          if is_dir f p then Inl IsADirectoryError
          else if p \<in> readonly f \<or> (files f p = None \<and> butlast p \<in> readonly f)
            then Inl PermissionError
          else Inr (f\<lparr>files := (files f)(p \<mapsto> data)\<rparr>))"

definition os_mkdir :: "filesystem \<Rightarrow> path \<Rightarrow> exn + filesystem" where
  "os_mkdir f p =
     (case walk f [] (butlast p) of
        Some e \<Rightarrow> Inl e
      | None \<Rightarrow>
          if path_exists f p then Inl FileExistsError
          else if butlast p \<in> readonly f then Inl PermissionError
          else Inr (f\<lparr>dirs := insert p (dirs f)\<rparr>))"

text \<open>
  \<open>Path.mkdir(parents=True, exist_ok=True)\<close>, as \<open>pathlib\<close> writes it: try
  \<open>os.mkdir\<close>; on \<open>FileNotFoundError\<close> make the parent the same way and try
  once more (now with \<open>parents=False\<close>); on any other \<open>OSError\<close> succeed only
  if the path is a directory. The result carries the filesystem also when the call
  raises, since ancestors may have been made by then.
\<close>

function mkdir_parents :: "filesystem \<Rightarrow> path \<Rightarrow> (exn + unit) \<times> filesystem" where
  "mkdir_parents f p =
     (case os_mkdir f p of
        Inr f' \<Rightarrow> (Inr (), f')
      | Inl e \<Rightarrow>
          if e = FileNotFoundError then
            (if parent p = p then (Inl e, f)
             else (case mkdir_parents f (parent p) of
                     (Inl e', f1) \<Rightarrow> (Inl e', f1)
                   | (Inr u, f1) \<Rightarrow>
                       (case os_mkdir f1 p of
                          Inr f2 \<Rightarrow> (Inr (), f2)
                        | Inl e2 \<Rightarrow>
                            if e2 = FileNotFoundError then (Inl e2, f1)
                            else if is_dir f1 p then (Inr (), f1) else (Inl e2, f1))))
          else if is_dir f p then (Inr (), f) else (Inl e, f))"
  by pat_completeness auto
termination
proof (relation "measure (\<lambda>(f, p). length p)")
  show "wf (measure (\<lambda>(f :: filesystem, p :: path). length p))" by simp
next
  fix f :: filesystem and p :: path and e :: exn
  assume "parent p \<noteq> p"
  then have "p \<noteq> []" by (auto simp: parent_def)
  then show "((f, parent p), (f, p)) \<in> measure (\<lambda>(f, p). length p)"
    by (simp add: parent_def)
qed

declare mkdir_parents.simps [simp del]

section \<open>Locating the project root\<close>

definition default_anchor_files :: "pystr list" where
  "default_anchor_files =
     [ascii ''.git'', ascii ''pyproject.toml'', ascii ''requirements.txt'']"

text \<open>The inner loop of \<open>get_project_root\<close>: does any anchor exist below \<open>p\<close>?\<close>

fun anchor_found :: "filesystem \<Rightarrow> path \<Rightarrow> pystr list \<Rightarrow> bool" where
  "anchor_found f p [] = False"
| "anchor_found f p (anchor # anchors) =
     (if path_exists f (joinpath p anchor) then True else anchor_found f p anchors)"

text \<open>The outer loop: the first candidate with an anchor.\<close>

fun search_root :: "filesystem \<Rightarrow> pystr list \<Rightarrow> path list \<Rightarrow> path option" where
  "search_root f anchors [] = None"
| "search_root f anchors (p # ps) =
     (if anchor_found f p anchors then Some p else search_root f anchors ps)"

definition get_project_root :: "filesystem \<Rightarrow> path \<Rightarrow> pystr list \<Rightarrow> path" where
  "get_project_root f current_path anchor_files =
     (case search_root f anchor_files (current_path # parents current_path) of
        Some p \<Rightarrow> p
      | None \<Rightarrow> parent current_path)"

section \<open>The collector\<close>

definition BING_BASE_URL :: pystr where
  "BING_BASE_URL = ascii ''https://www.bing.com''"

definition BING_API_URL :: pystr where
  "BING_API_URL = ascii ''https://www.bing.com/HPImageArchive.aspx''"

record WallpaperData =
  date_str :: pystr
  image_url :: pystr
  title :: pystr
  copyright :: pystr
  filename :: pystr

subsection \<open>The network\<close>

text \<open>
  A \<open>GET\<close> of the session: the address, the query parameters and the timeout in
  seconds; the \<open>User-Agent\<close> header is the same on every request and is left out. \<open>session.get\<close> either raises (no usable response: refused connection,
  timeout, broken transfer) or returns a response with a status code and a body
  that has been read in full.
\<close>

datatype request = Get pystr "(pystr \<times> pystr) list" nat

datatype 'b http_result = NoResponse | Response nat 'b

definition raise_for_status :: "nat \<Rightarrow> exn + unit" where
  "raise_for_status status =
     (if 400 \<le> status \<and> status < 600 then Inl (HTTPError status) else Inr ())"

text \<open>
  The body of the metadata endpoint is what \<open>resp.json()\<close> returns: any JSON value,
  as the Python object it becomes. A number is given by the text Python prints for
  it; an object is a dictionary with strings as keys. (A body that is not JSON makes
  \<open>resp.json()\<close> raise a \<open>RequestException\<close> of its own, as \<open>session.get\<close> does
  without a response; it is not told apart from that case.)
\<close>

datatype json =
    JNull
  | JBool bool
  | JNum pystr
  | JStr pystr
  | JArr "json list"
  | JObj "pystr \<Rightarrow> json option"

text \<open>
  Statements in sequence inside a \<open>try\<close> block: the first exception ends the
  block, otherwise the value goes to the statements that follow.
\<close>

definition raising :: "exn + 'a \<Rightarrow> ('a \<Rightarrow> exn + 'b) \<Rightarrow> exn + 'b" where
  "raising r k = (case r of Inl x \<Rightarrow> Inl x | Inr v \<Rightarrow> k v)"

text \<open>
  \<open>v[k]\<close> for a string \<open>k\<close>: a dictionary looks the key up, every other value
  raises \<open>TypeError\<close> (lists and strings want integers, the rest cannot be
  subscripted).
\<close>

fun subscript :: "json \<Rightarrow> pystr \<Rightarrow> exn + json" where
  "subscript (JObj d) k = (case d k of None \<Rightarrow> Inl (KeyError (KStr k)) | Some v \<Rightarrow> Inr v)"
| "subscript v k = Inl TypeError"

text \<open>\<open>xs[0]\<close> on a Python list.\<close>

definition getitem0 :: "'a list \<Rightarrow> exn + 'a" where
  "getitem0 xs = (case xs of [] \<Rightarrow> Inl IndexError | x # _ \<Rightarrow> Inr x)"

text \<open>
  \<open>v[0]\<close>: the first element of a list, the first character of a string (as a
  string), \<open>KeyError\<close> on a dictionary (its keys are strings), \<open>TypeError\<close> on
  the rest.
\<close>

fun first_item :: "json \<Rightarrow> exn + json" where
  "first_item (JArr xs) = getitem0 xs"
| "first_item (JStr s) = (case s of [] \<Rightarrow> Inl IndexError | c # _ \<Rightarrow> Inr (JStr [c]))"
| "first_item (JObj d) = Inl (KeyError (KInt 0))"
| "first_item v = Inl TypeError"

text \<open>
  \<open>v[a:b]\<close> (\<open>v[a:]\<close> when there is no \<open>b\<close>): strings and lists are cut. A
  dictionary raises \<open>TypeError\<close> (unhashable slice) before Python 3.12 and
  \<open>KeyError\<close> from 3.12 on, where slices are hashable; the first argument says which.
\<close>

definition cut :: "nat \<Rightarrow> nat option \<Rightarrow> 'a list \<Rightarrow> 'a list" where
  "cut a b xs = (case b of None \<Rightarrow> drop a xs | Some n \<Rightarrow> take (n - a) (drop a xs))"

fun slice :: "bool \<Rightarrow> nat \<Rightarrow> nat option \<Rightarrow> json \<Rightarrow> exn + json" where
  "slice h a b (JStr s) = Inr (JStr (cut a b s))"
| "slice h a b (JArr xs) = Inr (JArr (cut a b xs))"
| "slice h a b (JObj d) = (if h then Inl (KeyError KSlice) else Inl TypeError)"
| "slice h a b v = Inl TypeError"

text \<open>\<open>v.split(sep)\<close>: only strings have the method.\<close>

fun split_method :: "nat \<Rightarrow> json \<Rightarrow> exn + pystr list" where
  "split_method sep (JStr s) = Inr (split sep s)"
| "split_method sep v = Inl AttributeError"

subsection \<open>The world the program runs in\<close>

datatype level = DEBUG | INFO | SUCCESS | WARNING | ERROR

datatype message =
    DetectedProjectRoot path
  | StartingCollector pystr
  | NoMetadataFetched
  | FileAlreadyExists path
  | CriticalError exn
  | FetchingMetadata
  | MetadataFetched pystr
  | ErrorFetchingMetadata exn
  | DownloadingImage pystr
  | ImageSaved path
  | FailedToDownload exn
  | ReadmeUpdated
  | FailedToWriteReadme exn

text \<open>
  What the program changes: the filesystem, the requests it has issued and the
  lines it has logged (both in order, oldest first).
\<close>

record world =
  fs :: filesystem
  http_calls :: "request list"
  logs :: "(level \<times> message) list"

text \<open>
  What the program reads and does not change: its own resolved location
  (\<open>Path(__file__).resolve()\<close>), the year of \<open>date.today()\<close>, the two servers,
  and two facts about the Python that runs it: whether slices are hashable (3.12 and
  later) and how it prints lists and dictionaries.
\<close>

record env =
  script_path :: path
  today_year :: nat
  api_server :: "request \<Rightarrow> json http_result"
  image_server :: "request \<Rightarrow> (8 word list) http_result"
  slices_hashable :: bool
  repr_of :: "json \<Rightarrow> pystr"

text \<open>
  What an f-string puts for a value, \<open>str(v)\<close>: a string is itself, \<open>None\<close>,
  \<open>True\<close> and \<open>False\<close> are their names, a number is its text; for lists and
  dictionaries it is Python's \<open>repr\<close>, which the environment supplies.
\<close>

definition fmt :: "env \<Rightarrow> json \<Rightarrow> pystr" where
  "fmt e v =
     (case v of
        JStr s \<Rightarrow> s
      | JNull \<Rightarrow> ascii ''None''
      | JBool b \<Rightarrow> (if b then ascii ''True'' else ascii ''False'')
      | JNum t \<Rightarrow> t
      | JArr xs \<Rightarrow> repr_of e v
      | JObj d \<Rightarrow> repr_of e v)"

definition log_line :: "level \<Rightarrow> message \<Rightarrow> world \<Rightarrow> world" where
  "log_line l m w = w\<lparr>logs := logs w @ [(l, m)]\<rparr>"

definition issue :: "request \<Rightarrow> world \<Rightarrow> world" where
  "issue r w = w\<lparr>http_calls := http_calls w @ [r]\<rparr>"

record collector =
  market :: pystr
  project_root :: path
  readme_path :: path
  output_dir :: path

definition init :: "env \<Rightarrow> pystr \<Rightarrow> pystr \<Rightarrow> world \<Rightarrow> collector \<times> world" where
  "init e relative_output_dir mkt w =
     (let root = get_project_root (fs w) (script_path e) default_anchor_files
      in (\<lparr>market = mkt,
           project_root = root,
           readme_path = joinpath root (ascii ''README.md''),
           output_dir = joinpath root relative_output_dir\<rparr>,
          log_line DEBUG (DetectedProjectRoot root) w))"

subsection \<open>Fetching the metadata\<close>

text \<open>
  Lines 106 to 124 of \<open>_fetch_metadata\<close>: from the parsed body to the record. The
  caption is a string once \<open>split\<close> has succeeded, so the record holds it as it is.
\<close>

definition parse_metadata :: "env \<Rightarrow> json \<Rightarrow> exn + WallpaperData" where
  "parse_metadata e data =
     raising (subscript data (ascii ''images'')) (\<lambda>imgs.
     raising (first_item imgs) (\<lambda>image_data.
     raising (subscript image_data (ascii ''url'')) (\<lambda>url_suffix.
     raising (subscript image_data (ascii ''copyright'')) (\<lambda>copyright_text.
     raising (subscript image_data (ascii ''enddate'')) (\<lambda>d.
       (let full_url = BING_BASE_URL @ fmt e url_suffix in
     raising (split_method 40 copyright_text) (\<lambda>pieces.
     raising (getitem0 pieces) (\<lambda>before_paren.
       (let title_clean = clean_filename (strip before_paren) in
     raising (slice (slices_hashable e) 0 (Some 4) d) (\<lambda>d1.
     raising (slice (slices_hashable e) 4 (Some 6) d) (\<lambda>d2.
     raising (slice (slices_hashable e) 6 None d) (\<lambda>d3.
       (let formatted_date = fmt e d1 @ ascii ''-'' @ fmt e d2 @ ascii ''-'' @ fmt e d3;
            fname = formatted_date @ ascii ''_'' @ title_clean @ ascii ''.jpg''
        in Inr \<lparr>date_str = formatted_date,
                image_url = full_url,
                title = fmt e copyright_text,
                copyright = fmt e copyright_text,
                filename = fname\<rparr>)))))))))))))"

definition metadata_request :: "pystr \<Rightarrow> request" where
  "metadata_request mkt =
     Get BING_API_URL
       [(ascii ''format'', ascii ''js''), (ascii ''idx'', ascii ''0''),
        (ascii ''n'', ascii ''1''), (ascii ''mkt'', mkt)]
       10"

definition fetch_metadata ::
  "collector \<Rightarrow> env \<Rightarrow> world \<Rightarrow> (exn + WallpaperData option) \<times> world" where
  "fetch_metadata c e w =
     (let w1 = issue (metadata_request (market c)) (log_line DEBUG FetchingMetadata w);
          r = (case api_server e (metadata_request (market c)) of
                 NoResponse \<Rightarrow> Inl ConnectionError
               | Response status body \<Rightarrow>
                   (case raise_for_status status of
                      Inl x \<Rightarrow> Inl x
                    | Inr u \<Rightarrow> parse_metadata e body))
      in case r of
           Inr md \<Rightarrow> (Inr (Some md), log_line INFO (MetadataFetched (filename md)) w1)
         | Inl x \<Rightarrow>
             if is_RequestException x \<or> is_KeyError x \<or> is_IndexError x
             then (Inr None, log_line ERROR (ErrorFetchingMetadata x) w1)
             else (Inl x, w1))"

subsection \<open>Downloading the image\<close>

definition image_request :: "pystr \<Rightarrow> request" where
  "image_request url = Get url [] 30"

definition download_image ::
  "env \<Rightarrow> pystr \<Rightarrow> path \<Rightarrow> world \<Rightarrow> (exn + unit) \<times> world" where
  "download_image e url save_path w =
     (let w1 = issue (image_request url) (log_line DEBUG (DownloadingImage url) w);
          r = (case image_server e (image_request url) of
                 NoResponse \<Rightarrow> Inl ConnectionError
               | Response status body \<Rightarrow>
                   (case raise_for_status status of
                      Inl x \<Rightarrow> Inl x
                    | Inr u \<Rightarrow> Inr body))
      in case r of
           Inl x \<Rightarrow> (Inl x, log_line ERROR (FailedToDownload x) w1)
         | Inr body \<Rightarrow>
             (case open_write (fs w1) save_path (Binary body) of
                Inl x \<Rightarrow> (Inl x, w1)
              | Inr f' \<Rightarrow> (Inr (), log_line SUCCESS (ImageSaved save_path) (w1\<lparr>fs := f'\<rparr>))))"

subsection \<open>Rewriting the status document\<close>

definition nl :: pystr where
  "nl = [10]"

definition readme_content :: "pystr \<Rightarrow> WallpaperData \<Rightarrow> pystr" where
  "readme_content mkt data =
     ascii ''# '' @ [0x1F3DE, 0xFE0F] @ ascii '' Bing Daily Wallpaper'' @ nl @ nl
     @ ascii ''> '' @ [0x1F916] @ ascii '' Auto-collected by GitHub Actions.'' @ nl
     @ ascii ''> Market: '' @ mkt @ nl @ nl
     @ ascii ''## '' @ [0x1F4C5] @ ascii '' Today ('' @ date_str data @ ascii '')'' @ nl @ nl
     @ ascii ''!['' @ title data @ ascii '']('' @ image_url data @ ascii '')'' @ nl @ nl
     @ ascii ''> **'' @ copyright data @ ascii ''**'' @ nl @ nl
     @ ascii ''## '' @ [0x1F5C4, 0xFE0F] @ ascii '' Archives'' @ nl
     @ ascii ''- [View Archives](archives/)'' @ nl"

text \<open>
  \<open>with open(p, "w", encoding="utf-8") as f: f.write(s)\<close>. Opening creates or
  truncates the file. A lone surrogate (U+D800 to U+DFFF) cannot be encoded: then
  \<open>write\<close> raises \<open>UnicodeEncodeError\<close> and the file stays empty.
\<close>

definition encodable :: "pystr \<Rightarrow> bool" where
  "encodable s = list_all (\<lambda>c. c < 0xD800 \<or> 0xDFFF < c) s"

definition write_text :: "filesystem \<Rightarrow> path \<Rightarrow> pystr \<Rightarrow> (exn + unit) \<times> filesystem" where
  "write_text f p s =
     (case open_write f p (Text []) of
        Inl x \<Rightarrow> (Inl x, f)
      | Inr f0 \<Rightarrow>
          if encodable s then (Inr (), f0\<lparr>files := (files f0)(p \<mapsto> Text s)\<rparr>)
          else (Inl UnicodeEncodeError, f0))"

definition update_readme ::
  "collector \<Rightarrow> WallpaperData \<Rightarrow> world \<Rightarrow> (exn + unit) \<times> world" where
  "update_readme c data w =
     (case write_text (fs w) (readme_path c) (readme_content (market c) data) of
        (Inr u, f') \<Rightarrow> (Inr (), log_line INFO ReadmeUpdated (w\<lparr>fs := f'\<rparr>))
      | (Inl x, f') \<Rightarrow>
          if is_IOError x then (Inr (), log_line ERROR (FailedToWriteReadme x) (w\<lparr>fs := f'\<rparr>))
          else (Inl x, w\<lparr>fs := f'\<rparr>))"

subsection \<open>The run\<close>

text \<open>Lines 81 and 84: the directory of the year and the path of the image.\<close>

definition year_dir_of :: "collector \<Rightarrow> env \<Rightarrow> path" where
  "year_dir_of c e = joinpath (output_dir c) (str_of_nat (today_year e))"

definition save_path_of :: "collector \<Rightarrow> env \<Rightarrow> WallpaperData \<Rightarrow> path" where
  "save_path_of c e metadata = joinpath (year_dir_of c e) (filename metadata)"

text \<open>The body of the \<open>try\<close> block of \<open>run\<close>.\<close>

definition run_body :: "collector \<Rightarrow> env \<Rightarrow> world \<Rightarrow> (exn + unit) \<times> world" where
  "run_body c e w =
     (case fetch_metadata c e w of
        (Inl x, w1) \<Rightarrow> (Inl x, w1)
      | (Inr None, w1) \<Rightarrow> (Inr (), log_line WARNING NoMetadataFetched w1)
      | (Inr (Some metadata), w1) \<Rightarrow>
          (case mkdir_parents (fs w1) (year_dir_of c e) of
             (Inl x, f2) \<Rightarrow> (Inl x, w1\<lparr>fs := f2\<rparr>)
           | (Inr u, f2) \<Rightarrow>
               if path_exists f2 (save_path_of c e metadata)
               then (Inr (),
                     log_line INFO (FileAlreadyExists (save_path_of c e metadata))
                       (w1\<lparr>fs := f2\<rparr>))
               else (case download_image e (image_url metadata)
                            (save_path_of c e metadata) (w1\<lparr>fs := f2\<rparr>) of
                       (Inl x, w3) \<Rightarrow> (Inl x, w3)
                     | (Inr u, w3) \<Rightarrow> update_readme c metadata w3)))"

text \<open>
  \<open>run\<close> with the exit status of the process: an exception that leaves the
  \<open>try\<close> block is logged and \<open>sys.exit(1)\<close> ends the process (\<open>finish\<close>);
  otherwise \<open>run\<close> returns and the process ends with status 0.
\<close>

definition finish :: "(exn + unit) \<times> world \<Rightarrow> nat \<times> world" where
  "finish r =
     (case r of
        (Inl x, w') \<Rightarrow> (1, log_line ERROR (CriticalError x) w')
      | (Inr u, w') \<Rightarrow> (0, w'))"

definition run :: "collector \<Rightarrow> env \<Rightarrow> world \<Rightarrow> nat \<times> world" where
  "run c e w = finish (run_body c e (log_line INFO (StartingCollector (market c)) w))"

text \<open>The program: \<open>--output\<close> and \<open>--market\<close>, then the collector's run.\<close>

definition main :: "env \<Rightarrow> pystr \<Rightarrow> pystr \<Rightarrow> world \<Rightarrow> nat \<times> world" where
  "main e output mkt w = (case init e output mkt w of (c, w') \<Rightarrow> run c e w')"

section \<open>Failures, in the words of the specification\<close>

text \<open>
  A request fails by a network error or by an HTTP error status (400 to 599, what
  \<open>raise_for_status\<close> rejects). A metadata body is incomplete when it is an object
  without the \<open>images\<close> key, or its \<open>images\<close> array is empty, or the first entry
  is an object without one of the three fields.
\<close>

fun http_failed :: "'b http_result \<Rightarrow> bool" where
  "http_failed NoResponse = True"
| "http_failed (Response status body) = (400 \<le> status \<and> status < 600)"

text \<open>The exception of a failed request.\<close>

fun http_error :: "'b http_result \<Rightarrow> exn" where
  "http_error NoResponse = ConnectionError"
| "http_error (Response status body) = HTTPError status"




text \<open>A path is writable when opening it for writing succeeds.\<close>

definition writable :: "filesystem \<Rightarrow> path \<Rightarrow> bool" where
  "writable f p = (case open_write f p (Text []) of Inl x \<Rightarrow> False | Inr f' \<Rightarrow> True)"

section \<open>The project root, in the words of the specification\<close>

text \<open>
  A directory has a marker when it contains an entry named \<open>.git\<close>,
  \<open>pyproject.toml\<close> or \<open>requirements.txt\<close> (the program tests existence, of a
  file or of a directory alike).
\<close>

definition has_marker :: "filesystem \<Rightarrow> path \<Rightarrow> bool" where
  "has_marker f p =
     (path_exists f (p @ [ascii ''.git''])
      \<or> path_exists f (p @ [ascii ''pyproject.toml''])
      \<or> path_exists f (p @ [ascii ''requirements.txt'']))"

section \<open>The derived filename, in the words of the specification\<close>

text \<open>
  The date with hyphens inserted after its characters 4 and 6, the part of a caption
  before its first opening parenthesis (character 40), what a digit is, and the shape
  \<open>YYYY-MM-DD_<prefix>.jpg\<close> of a filename.
\<close>

definition insert_hyphens :: "pystr \<Rightarrow> pystr" where
  "insert_hyphens d = take 4 d @ ascii ''-'' @ take 2 (drop 4 d) @ ascii ''-'' @ drop 6 d"

definition before_first_paren :: "pystr \<Rightarrow> pystr" where
  "before_first_paren c = takeWhile (\<lambda>x. x \<noteq> 40) c"

text \<open>
  The filename as the claim words it: the part before the parenthesis is trimmed,
  then the nine characters (code points 92, 47, 42, 63, 58, 34, 60, 62 and 124:
  backslash, slash, asterisk, question mark, colon, double quote, less-than,
  greater-than, vertical bar) are removed, and nothing more is done.
\<close>

definition claimed_filename :: "pystr \<Rightarrow> pystr \<Rightarrow> pystr" where
  "claimed_filename d c =
     insert_hyphens d @ ascii ''_''
     @ filter (\<lambda>x. x \<notin> {92, 47, 42, 63, 58, 34, 60, 62, 124}) (strip (before_first_paren c))
     @ ascii ''.jpg''"

text \<open>The filename of the record that the fetch returns, when it returns one.\<close>

definition fetched_filename :: "collector \<Rightarrow> env \<Rightarrow> world \<Rightarrow> pystr option" where
  "fetched_filename c e w =
     (case fst (fetch_metadata c e w) of
        Inr (Some md) \<Rightarrow> Some (filename md)
      | _ \<Rightarrow> None)"

definition is_digit :: "nat \<Rightarrow> bool" where
  "is_digit c = (48 \<le> c \<and> c \<le> 57)"

definition dated_jpg :: "pystr \<Rightarrow> bool" where
  "dated_jpg f =
     (15 \<le> length f
      \<and> list_all is_digit (take 4 f) \<and> take 1 (drop 4 f) = ascii ''-''
      \<and> list_all is_digit (take 2 (drop 5 f)) \<and> take 1 (drop 7 f) = ascii ''-''
      \<and> list_all is_digit (take 2 (drop 8 f)) \<and> take 1 (drop 10 f) = ascii ''_''
      \<and> drop (length f - 4) f = ascii ''.jpg'')"

section \<open>An example response\<close>

text \<open>
  The entry with \<open>enddate = "20240115"\<close>, \<open>url = "/th?id=ABC123"\<close> and the
  caption \<open>"Mountain View (\<copyright> Example Corp)"\<close>; the copyright sign is U+00A9.
\<close>

definition example_caption :: pystr where
  "example_caption = ascii ''Mountain View ('' @ [169] @ ascii '' Example Corp)''"

definition entry_of :: "pystr \<Rightarrow> pystr \<Rightarrow> pystr \<Rightarrow> json" where
  "entry_of d u c =
     JObj [ascii ''enddate'' \<mapsto> JStr d, ascii ''url'' \<mapsto> JStr u,
           ascii ''copyright'' \<mapsto> JStr c]"

definition body_of :: "json \<Rightarrow> json" where
  "body_of entry = JObj [ascii ''images'' \<mapsto> JArr [entry]]"

definition example_entry :: json where
  "example_entry = entry_of (ascii ''20240115'') (ascii ''/th?id=ABC123'') example_caption"

definition example_body :: json where
  "example_body = body_of example_entry"

text \<open>
  A checkout at \<open>/repo\<close> with the program at \<open>/repo/src/main.py\<close>, a year, and
  servers that answer every request with status 200. The examples hold strings
  wherever a value is printed, so the \<open>repr\<close> of lists and dictionaries is never
  asked for and is left empty here.
\<close>

definition example_fs :: filesystem where
  "example_fs =
     \<lparr>files = [[ascii ''repo'', ascii ''src'', ascii ''main.py''] \<mapsto> Text []],
      dirs = {[ascii ''repo''], [ascii ''repo'', ascii ''.git''], [ascii ''repo'', ascii ''src'']},
      readonly = {}\<rparr>"

definition example_world :: world where
  "example_world = \<lparr>fs = example_fs, http_calls = [], logs = []\<rparr>"

definition example_env :: env where
  "example_env =
     \<lparr>script_path = [ascii ''repo'', ascii ''src'', ascii ''main.py''],
      today_year = 2024,
      api_server = \<lambda>r. Response 200 example_body,
      image_server = \<lambda>r. Response 200 [0xFF, 0xD8, 0xFF, 0xD9],
      slices_hashable = False,
      repr_of = \<lambda>v. []\<rparr>"

definition example_collector :: collector where
  "example_collector =
     \<lparr>market = ascii ''en-US'',
      project_root = [ascii ''repo''],
      readme_path = [ascii ''repo'', ascii ''README.md''],
      output_dir = [ascii ''repo'', ascii ''archives'']\<rparr>"

text \<open>The record of the example entry, and where its image goes in 2024.\<close>

definition example_record :: WallpaperData where
  "example_record =
     \<lparr>date_str = ascii ''2024-01-15'',
      image_url = ascii ''https://www.bing.com/th?id=ABC123'',
      title = example_caption,
      copyright = example_caption,
      filename = ascii ''2024-01-15_Mountain View.jpg''\<rparr>"

definition example_year_dir :: path where
  "example_year_dir = [ascii ''repo'', ascii ''archives'', ascii ''2024'']"

definition example_save_path :: path where
  "example_save_path = example_year_dir @ [ascii ''2024-01-15_Mountain View.jpg'']"

definition serving :: "json \<Rightarrow> env" where
  "serving body = example_env\<lparr>api_server := \<lambda>r. Response 200 body\<rparr>"

text \<open>
  Metadata servers: one whose caption starts with a question mark, one whose body
  is an empty list, one whose caption is \<open>null\<close>, one whose caption ends in a lone
  surrogate, one that serves the example entry with another image address, and one
  that serves the entry of the next day.
\<close>

definition question_env :: env where
  "question_env =
     serving (body_of (entry_of (ascii ''20240115'') (ascii ''/th?id=ABC123'') (ascii ''? a (x)'')))"



definition surrogate_caption :: pystr where
  "surrogate_caption = ascii ''Mountain View ('' @ [0xD800] @ ascii '')''"


definition surrogate_record :: WallpaperData where
  "surrogate_record = example_record\<lparr>title := surrogate_caption, copyright := surrogate_caption\<rparr>"


definition other_url_record :: WallpaperData where
  "other_url_record = example_record\<lparr>image_url := ascii ''https://www.bing.com/th?id=XYZ789''\<rparr>"


definition next_day_record :: WallpaperData where
  "next_day_record =
     \<lparr>date_str = ascii ''2024-01-16'',
      image_url = ascii ''https://www.bing.com/th?id=DEF456'',
      title = ascii ''Lake (B)'',
      copyright = ascii ''Lake (B)'',
      filename = ascii ''2024-01-16_Lake.jpg''\<rparr>"


text \<open>
  Further variants: an image server that answers 304 or 500, a checkout whose
  status document is read-only, and the world that a first run on the example leaves.
\<close>

definition not_modified_env :: env where
  "not_modified_env = example_env\<lparr>image_server := \<lambda>r. Response 304 []\<rparr>"

definition server_error_env :: env where
  "server_error_env = example_env\<lparr>image_server := \<lambda>r. Response 500 []\<rparr>"


definition first_run_world :: world where
  "first_run_world = snd (run example_collector example_env example_world)"

section \<open>Properties of the string operations\<close>

lemma forbidden_not_space: "c \<in> set forbidden \<Longrightarrow> \<not> isspace c"
  by (auto simp: forbidden_def isspace_def)

lemma set_strip_subset: "set (strip s) \<subseteq> set s"
proof -
  have "set (strip s) \<subseteq> set (dropWhile isspace s)"
    unfolding strip_def rstrip_def lstrip_def
    using set_dropWhileD [of _ isspace "rev (dropWhile isspace s)"] by auto
  also have "\<dots> \<subseteq> set s"
    using set_dropWhileD [of _ isspace s] by auto
  finally show ?thesis .
qed

lemma lstrip_no_leading: "takeWhile isspace (lstrip s) = []"
  unfolding lstrip_def
  by (metis hd_dropWhile takeWhile.simps(1) takeWhile_eq_Nil_iff)

lemma rstrip_no_trailing: "takeWhile isspace (rev (rstrip s)) = []"
  unfolding rstrip_def
  by (metis hd_dropWhile rev_rev_ident takeWhile.simps(1) takeWhile_eq_Nil_iff)

lemma dropWhile_id_iff: "dropWhile P xs = xs \<longleftrightarrow> takeWhile P xs = []"
proof
  assume "dropWhile P xs = xs"
  then have "takeWhile P xs @ xs = xs"
    using takeWhile_dropWhile_id [of P xs] by simp
  then show "takeWhile P xs = []" by simp
next
  assume "takeWhile P xs = []"
  then show "dropWhile P xs = xs"
    using takeWhile_dropWhile_id [of P xs] by simp
qed

lemma strip_fixed:
  assumes "takeWhile isspace s = []" and "takeWhile isspace (rev s) = []"
  shows "strip s = s"
proof -
  from assms have "dropWhile isspace s = s" and "dropWhile isspace (rev s) = rev s"
    by (simp_all only: dropWhile_id_iff)
  then show ?thesis by (simp add: strip_def lstrip_def rstrip_def)
qed

lemma strip_no_trailing: "takeWhile isspace (rev (strip s)) = []"
  by (simp add: strip_def rstrip_no_trailing)

lemma rstrip_keeps_no_leading:
  assumes "takeWhile isspace s = []"
  shows "takeWhile isspace (rstrip s) = []"
proof (cases "rstrip s")
  case Nil
  then show ?thesis by simp
next
  case (Cons c cs)
  have "rev (dropWhile isspace (rev s)) @ rev (takeWhile isspace (rev s)) = s"
    using takeWhile_dropWhile_id [of isspace "rev s"]
    by (metis rev_append rev_rev_ident)
  then obtain t where "s = rstrip s @ t"
    unfolding rstrip_def by metis
  with Cons have "s = c # (cs @ t)" by simp
  then have "hd s = c" and "s \<noteq> []" by simp_all
  moreover from assms have "s = [] \<or> \<not> isspace (hd s)"
    by (simp add: takeWhile_eq_Nil_iff)
  ultimately show ?thesis using Cons by simp
qed

lemma strip_no_leading: "takeWhile isspace (strip s) = []"
  by (simp add: strip_def rstrip_keeps_no_leading lstrip_no_leading)

lemma strip_idem: "strip (strip s) = strip s"
  by (rule strip_fixed) (rule strip_no_leading, rule strip_no_trailing)

lemma re_sub_forbidden_fixed:
  "set s \<inter> set forbidden = {} \<Longrightarrow> re_sub_forbidden s = s"
  unfolding re_sub_forbidden_def by (rule filter_True) auto

lemma clean_filename_no_forbidden: "set (clean_filename s) \<inter> set forbidden = {}"
proof -
  have "set (clean_filename s) \<subseteq> set (re_sub_forbidden s)"
    unfolding clean_filename_def by (rule set_strip_subset)
  then show ?thesis by (auto simp: re_sub_forbidden_def)
qed

lemma clean_filename_idem: "clean_filename (clean_filename s) = clean_filename s"
proof -
  have "re_sub_forbidden (clean_filename s) = clean_filename s"
    by (rule re_sub_forbidden_fixed) (rule clean_filename_no_forbidden)
  then have "clean_filename (clean_filename s) = strip (clean_filename s)"
    by (simp add: clean_filename_def)
  then show ?thesis by (simp add: clean_filename_def strip_idem)
qed

lemma split_hd: "\<exists>ps. split sep s = takeWhile (\<lambda>x. x \<noteq> sep) s # ps"
  by (induction s) (auto split: list.splits)

lemma getitem0_split: "getitem0 (split sep s) = Inr (takeWhile (\<lambda>x. x \<noteq> sep) s)"
  using split_hd [of sep s] by (auto simp: getitem0_def)

lemma strip_padding:
  assumes a: "\<forall>x\<in>set a. isspace x" and b: "\<forall>x\<in>set b. isspace x"
  shows "strip (a @ m @ b) = strip m"
proof -
  have l: "lstrip (a @ m @ b) = lstrip (m @ b)"
    unfolding lstrip_def using a by (simp add: dropWhile_append2)
  show ?thesis
  proof (cases "\<forall>x\<in>set m. isspace x")
    case True
    then have "lstrip (m @ b) = []" and "lstrip m = []"
      using b by (auto simp: lstrip_def)
    with l show ?thesis by (simp add: strip_def)
  next
    case False
    then obtain x where "x \<in> set m" and "\<not> isspace x" by blast
    then have "lstrip (m @ b) = lstrip m @ b"
      unfolding lstrip_def by (rule dropWhile_append1)
    moreover have "dropWhile isspace (rev b @ rev (lstrip m)) = dropWhile isspace (rev (lstrip m))"
      by (rule dropWhile_append2) (use b in auto)
    then have "rstrip (lstrip m @ b) = rstrip (lstrip m)"
      by (simp add: rstrip_def)
    ultimately show ?thesis using l by (simp add: strip_def)
  qed
qed

lemma strip_decompose:
  "\<exists>a b. s = a @ strip s @ b \<and> (\<forall>x\<in>set a. isspace x) \<and> (\<forall>x\<in>set b. isspace x)"
proof -
  let ?a = "takeWhile isspace s"
  let ?b = "rev (takeWhile isspace (rev (lstrip s)))"
  have "rev (lstrip s) = takeWhile isspace (rev (lstrip s)) @ dropWhile isspace (rev (lstrip s))"
    by (simp only: takeWhile_dropWhile_id)
  then have "rev (rev (lstrip s)) = rev (dropWhile isspace (rev (lstrip s))) @ ?b"
    by (metis rev_append)
  then have "lstrip s = strip s @ ?b"
    by (simp add: strip_def rstrip_def)
  moreover have "s = ?a @ lstrip s" by (simp add: lstrip_def)
  ultimately have "s = ?a @ strip s @ ?b" by simp
  moreover have "\<forall>x\<in>set ?a. isspace x" by (auto dest: set_takeWhileD)
  moreover have "\<forall>x\<in>set ?b. isspace x" by (auto dest: set_takeWhileD)
  ultimately show ?thesis by blast
qed

lemma re_sub_keeps_space: "\<forall>x\<in>set a. isspace x \<Longrightarrow> re_sub_forbidden a = a"
  unfolding re_sub_forbidden_def by (rule filter_True) (auto dest: forbidden_not_space)

lemma clean_filename_strip: "clean_filename (strip s) = clean_filename s"
proof -
  obtain a b where s: "s = a @ strip s @ b"
    and a: "\<forall>x\<in>set a. isspace x" and b: "\<forall>x\<in>set b. isspace x"
    using strip_decompose by blast
  have "re_sub_forbidden s = re_sub_forbidden (a @ strip s @ b)" using s by simp
  also have "\<dots> = a @ re_sub_forbidden (strip s) @ b"
    using re_sub_keeps_space [OF a] re_sub_keeps_space [OF b]
    by (simp add: re_sub_forbidden_def)
  finally show ?thesis
    by (simp add: clean_filename_def strip_padding [OF a b])
qed


lemma getitem0_Cons: "getitem0 (x # xs) = Inr x"
  by (simp add: getitem0_def)

lemma cut_string [simp]:
  "cut 0 (Some 4) d = take 4 d" "cut 4 (Some 6) d = take 2 (drop 4 d)" "cut 6 None d = drop 6 d"
  by (simp_all add: cut_def)

lemma parse_metadata_fields:
  assumes "body (ascii ''images'') = Some (JArr (JObj entry # others))"
    and "entry (ascii ''url'') = Some u"
    and "entry (ascii ''copyright'') = Some (JStr c)"
    and "entry (ascii ''enddate'') = Some (JStr d)"
  shows "parse_metadata e (JObj body) =
     Inr \<lparr>date_str = insert_hyphens d,
          image_url = BING_BASE_URL @ fmt e u,
          title = c,
          copyright = c,
          filename = insert_hyphens d @ ascii ''_''
                     @ clean_filename (before_first_paren c) @ ascii ''.jpg''\<rparr>"
  using assms
  by (simp add: parse_metadata_def raising_def getitem0_split getitem0_Cons fmt_def
      insert_hyphens_def before_first_paren_def clean_filename_strip)

lemma forbidden_set: "set forbidden = {92, 47, 42, 63, 58, 34, 60, 62, 124}"
  by (simp add: forbidden_def)

lemma digit_not_forbidden: "is_digit x \<Longrightarrow> x \<notin> set forbidden"
  by (auto simp: is_digit_def forbidden_def)

lemma insert_hyphens_clean:
  assumes "list_all is_digit d"
  shows "set (insert_hyphens d) \<inter> set forbidden = {}"
proof -
  have "set (insert_hyphens d) \<subseteq> set d \<union> {45}"
    by (auto simp: insert_hyphens_def ascii_def dest: in_set_takeD in_set_dropD)
  moreover have "set d \<inter> set forbidden = {}"
    using assms by (auto simp: list_all_iff dest: digit_not_forbidden)
  moreover have "45 \<notin> set forbidden" by (simp add: forbidden_def)
  ultimately show ?thesis by auto
qed

lemma dated_jpg_shape:
  assumes "length d = 8" and "list_all is_digit d"
  shows "dated_jpg (insert_hyphens d @ ascii ''_'' @ t @ ascii ''.jpg'')"
proof -
  have "list_all is_digit (take 4 d)" "list_all is_digit (take 2 (drop 4 d))"
    "list_all is_digit (drop 6 d)"
    using assms(2) by (auto simp: list_all_iff dest: in_set_takeD in_set_dropD)
  moreover have "drop (length (insert_hyphens d @ ascii ''_'' @ t @ ascii ''.jpg'') - 4)
      ((insert_hyphens d @ ascii ''_'' @ t) @ ascii ''.jpg'') = ascii ''.jpg''"
    by (simp add: ascii_def)
  ultimately show ?thesis
    using assms(1) by (simp add: dated_jpg_def) (simp add: insert_hyphens_def ascii_def)
qed

section \<open>Properties of the search for the project root\<close>

lemma joinpath_anchor:
  "joinpath p (ascii ''.git'') = p @ [ascii ''.git'']"
  "joinpath p (ascii ''pyproject.toml'') = p @ [ascii ''pyproject.toml'']"
  "joinpath p (ascii ''requirements.txt'') = p @ [ascii ''requirements.txt'']"
  "joinpath p (ascii ''README.md'') = p @ [ascii ''README.md'']"
  by (simp_all add: joinpath_def path_parts_def ascii_def)

lemma anchor_found_default: "anchor_found f p default_anchor_files = has_marker f p"
  by (simp add: default_anchor_files_def has_marker_def joinpath_anchor)

lemma search_root_find:
  "search_root f anchors ps = find (\<lambda>p. anchor_found f p anchors) ps"
  by (induction ps) simp_all

lemma parents_root: "parents [] = []"
  by (simp add: parents_def)

lemma parents_snoc: "parents (p @ [c]) = p # parents p"
  by (simp add: parents_def)

section \<open>Properties of the effects\<close>



lemma os_mkdir_frame:
  "os_mkdir f p = Inr f' \<Longrightarrow> files f' = files f \<and> readonly f' = readonly f \<and> dirs f \<subseteq> dirs f'"
  by (auto simp: os_mkdir_def split: option.splits if_splits)

lemma mkdir_parents_frame:
  "mkdir_parents f p = (r, f') \<Longrightarrow>
     files f' = files f \<and> readonly f' = readonly f \<and> dirs f \<subseteq> dirs f'"
proof (induction f p arbitrary: r f' rule: mkdir_parents.induct)
  case (1 f p)
  show ?case
  proof (cases "os_mkdir f p")
    case (Inr g)
    with "1.prems" have "f' = g" by (simp add: mkdir_parents.simps [of f p])
    with Inr show ?thesis by (auto dest: os_mkdir_frame)
  next
    case (Inl x)
    show ?thesis
    proof (cases "x = FileNotFoundError \<and> parent p \<noteq> p")
      case False
      with Inl "1.prems" have "f' = f"
        by (auto simp: mkdir_parents.simps [of f p] split: if_splits)
      then show ?thesis by simp
    next
      case True
      obtain r1 f1 where f1: "mkdir_parents f (parent p) = (r1, f1)"
        by (cases "mkdir_parents f (parent p)")
      from True have x: "x = FileNotFoundError" and np: "parent p \<noteq> p" by simp_all
      from "1.IH" [OF Inl x np f1]
      have fr1: "files f1 = files f \<and> readonly f1 = readonly f \<and> dirs f \<subseteq> dirs f1" .
      from Inl x np f1 "1.prems"
      have "os_mkdir f1 p = Inr f' \<or> f' = f1"
        by (auto simp: mkdir_parents.simps [of f p] split: sum.splits if_splits)
      then show ?thesis using fr1 by (auto dest!: os_mkdir_frame)
    qed
  qed
qed

lemma mkdir_parents_exists:
  "mkdir_parents f p = (r, f') \<Longrightarrow> path_exists f q \<Longrightarrow> path_exists f' q"
  by (auto simp: path_exists_def is_dir_def dest!: mkdir_parents_frame)

lemma fetch_metadata_fs [simp]: "fs (snd (fetch_metadata c e w)) = fs w"
  by (simp add: fetch_metadata_def Let_def log_line_def issue_def split: sum.splits)



lemma fetch_metadata_result:
  assumes "fst (fetch_metadata c e w) = Inr (Some md)"
  shows "fetch_metadata c e w' =
     (Inr (Some md),
      log_line INFO (MetadataFetched (filename md))
        (issue (metadata_request (market c)) (log_line DEBUG FetchingMetadata w')))"
  using assms by (auto simp: fetch_metadata_def Let_def split: sum.splits if_splits)



lemma open_write_result:
  "open_write f p d = Inr f' \<Longrightarrow> f' = f\<lparr>files := (files f)(p \<mapsto> d)\<rparr>"
  by (auto simp: open_write_def split: option.splits if_splits)

lemma writable_open_write:
  "writable f p \<Longrightarrow> open_write f p d = Inr (f\<lparr>files := (files f)(p \<mapsto> d)\<rparr>)"
  by (auto simp: writable_def open_write_def split: option.splits if_splits)

lemma walk_dirs_cong:
  "dirs g = dirs f \<Longrightarrow> walk f base cs = None \<Longrightarrow> walk g base cs = None"
  by (induction cs arbitrary: base) (auto simp: is_dir_def split: if_splits)

lemma writable_after_write:
  assumes "writable f p"
  shows "writable (f\<lparr>files := (files f)(p \<mapsto> d)\<rparr>) p"
proof -
  let ?g = "f\<lparr>files := (files f)(p \<mapsto> d)\<rparr>"
  from assms have w: "walk f [] (butlast p) = None" and nd: "\<not> is_dir f p"
    and ro: "p \<notin> readonly f"
    by (auto simp: writable_def open_write_def split: option.splits if_splits)
  have "walk ?g [] (butlast p) = None"
    by (rule walk_dirs_cong [OF _ w]) simp
  moreover have "\<not> is_dir ?g p" using nd by (simp add: is_dir_def)
  ultimately show ?thesis using ro by (simp add: writable_def open_write_def)
qed


lemma write_text_written:
  "writable f p \<Longrightarrow> encodable s \<Longrightarrow>
   write_text f p s = (Inr (), f\<lparr>files := (files f)(p \<mapsto> Text s)\<rparr>)"
  by (simp add: write_text_def writable_open_write)

lemma write_text_unencodable:
  "writable f p \<Longrightarrow> \<not> encodable s \<Longrightarrow>
   write_text f p s = (Inl UnicodeEncodeError, f\<lparr>files := (files f)(p \<mapsto> Text [])\<rparr>)"
  by (simp add: write_text_def writable_open_write)


lemma update_readme_writable:
  assumes "writable (fs w) (readme_path c)" and "encodable (readme_content (market c) d)"
  shows "update_readme c d w =
     (Inr (), log_line INFO ReadmeUpdated
        (w\<lparr>fs := (fs w)\<lparr>files := (files (fs w))(readme_path c \<mapsto>
               Text (readme_content (market c) d))\<rparr>\<rparr>))"
  by (simp add: update_readme_def write_text_written [OF assms])

lemma update_readme_unencodable:
  assumes "writable (fs w) (readme_path c)" and "\<not> encodable (readme_content (market c) d)"
  shows "update_readme c d w =
     (Inl UnicodeEncodeError,
      w\<lparr>fs := (fs w)\<lparr>files := (files (fs w))(readme_path c \<mapsto> Text [])\<rparr>\<rparr>)"
  by (simp add: update_readme_def write_text_unencodable [OF assms])

lemma update_readme_keeps_writable:
  assumes "writable (fs w) (readme_path c)"
  shows "writable (fs (snd (update_readme c d w))) (readme_path c)"
proof (cases "encodable (readme_content (market c) d)")
  case True
  then show ?thesis
    using writable_after_write [OF assms]
    by (simp add: update_readme_writable [OF assms] log_line_def)
next
  case False
  then show ?thesis
    using writable_after_write [OF assms]
    by (simp add: update_readme_unencodable [OF assms])
qed

lemma http_error_RequestException [simp]: "is_RequestException (http_error r)"
  by (cases r) simp_all

lemma download_image_failed:
  assumes "http_failed (image_server e (image_request url))"
  shows "download_image e url save_path w =
     (Inl (http_error (image_server e (image_request url))),
      log_line ERROR (FailedToDownload (http_error (image_server e (image_request url))))
        (issue (image_request url) (log_line DEBUG (DownloadingImage url) w)))"
  using assms
  by (cases "image_server e (image_request url)")
     (auto simp: download_image_def Let_def raise_for_status_def)

lemma download_image_saved:
  assumes "image_server e (image_request url) = Response status body"
    and "\<not> (400 \<le> status \<and> status < 600)"
    and "open_write (fs w) save_path (Binary body) = Inr f'"
  shows "download_image e url save_path w =
     (Inr (), log_line SUCCESS (ImageSaved save_path)
        (issue (image_request url) (log_line DEBUG (DownloadingImage url) w)\<lparr>fs := f'\<rparr>))"
  using assms
  by (simp add: download_image_def Let_def raise_for_status_def log_line_def issue_def)

text \<open>The run up to the call of \<open>_update_readme\<close>, and what becomes of its result.\<close>

lemma run_reaches_update:
  assumes "fst (fetch_metadata c e w) = Inr (Some md)"
    and "mkdir_parents (fs w) (year_dir_of c e) = (Inr (), f2)"
    and "\<not> path_exists f2 (save_path_of c e md)"
    and "image_server e (image_request (image_url md)) = Response status body"
    and "\<not> (400 \<le> status \<and> status < 600)"
    and "open_write f2 (save_path_of c e md) (Binary body) = Inr f3"
  shows "\<exists>w3. fs w3 = f3 \<and> run c e w = finish (update_readme c md w3)"
proof -
  let ?w0 = "log_line INFO (StartingCollector (market c)) w"
  let ?w1 = "log_line INFO (MetadataFetched (filename md))
        (issue (metadata_request (market c)) (log_line DEBUG FetchingMetadata ?w0))"
  let ?w2 = "?w1\<lparr>fs := f2\<rparr>"
  let ?w3 = "log_line SUCCESS (ImageSaved (save_path_of c e md))
        (issue (image_request (image_url md))
           (log_line DEBUG (DownloadingImage (image_url md)) ?w2)\<lparr>fs := f3\<rparr>)"
  have f: "fetch_metadata c e ?w0 = (Inr (Some md), ?w1)"
    using assms(1) by (rule fetch_metadata_result)
  have fs1: "fs ?w1 = fs w" by (simp add: log_line_def issue_def)
  have "fs ?w2 = f2" by simp
  with assms(6) have "open_write (fs ?w2) (save_path_of c e md) (Binary body) = Inr f3"
    by simp
  with assms(4,5) have d: "download_image e (image_url md) (save_path_of c e md) ?w2 = (Inr (), ?w3)"
    by (rule download_image_saved)
  have "run c e w = finish (update_readme c md ?w3)"
    by (simp add: run_def run_body_def f fs1 assms(2,3) d)
  moreover have "fs ?w3 = f3" by (simp add: log_line_def issue_def)
  ultimately show ?thesis by blast
qed

lemma run_replaces_readme:
  assumes "fst (fetch_metadata c e w) = Inr (Some md)"
    and "mkdir_parents (fs w) (year_dir_of c e) = (Inr (), f2)"
    and "\<not> path_exists f2 (save_path_of c e md)"
    and "image_server e (image_request (image_url md)) = Response status body"
    and "\<not> (400 \<le> status \<and> status < 600)"
    and "open_write f2 (save_path_of c e md) (Binary body) = Inr f3"
    and "writable f3 (readme_path c)"
    and "encodable (readme_content (market c) md)"
  shows "fst (run c e w) = 0
     \<and> fs (snd (run c e w)) =
         f3\<lparr>files := (files f3)(readme_path c \<mapsto> Text (readme_content (market c) md))\<rparr>
     \<and> last (logs (snd (run c e w))) = (INFO, ReadmeUpdated)"
proof -
  obtain w3 where w3: "fs w3 = f3"
    and r: "run c e w = finish (update_readme c md w3)"
    using run_reaches_update [OF assms(1-6)] by blast
  have "writable (fs w3) (readme_path c)" using assms(7) w3 by simp
  then show ?thesis
    using r w3 assms(8) by (simp add: update_readme_writable log_line_def finish_def)
qed



lemma mkdir_parents_existing:
  "walk f [] (butlast p) = None \<Longrightarrow> is_dir f p \<Longrightarrow> mkdir_parents f p = (Inr (), f)"
  by (simp add: mkdir_parents.simps [of f p] os_mkdir_def path_exists_def)

lemma run_download_failed:
  assumes "fst (fetch_metadata c e w) = Inr (Some md)"
    and "mkdir_parents (fs w) (year_dir_of c e) = (Inr (), f2)"
    and "\<not> path_exists f2 (save_path_of c e md)"
    and "http_failed (image_server e (image_request (image_url md)))"
  shows "run c e w =
         (1, w\<lparr>fs := f2,
              http_calls := http_calls w
                @ [metadata_request (market c), image_request (image_url md)],
              logs := logs w
                @ [(INFO, StartingCollector (market c)),
                   (DEBUG, FetchingMetadata),
                   (INFO, MetadataFetched (filename md)),
                   (DEBUG, DownloadingImage (image_url md)),
                   (ERROR, FailedToDownload
                      (http_error (image_server e (image_request (image_url md))))),
                   (ERROR, CriticalError
                      (http_error (image_server e (image_request (image_url md)))))]\<rparr>)"
proof -
  let ?w0 = "log_line INFO (StartingCollector (market c)) w"
  let ?w1 = "log_line INFO (MetadataFetched (filename md))
        (issue (metadata_request (market c)) (log_line DEBUG FetchingMetadata ?w0))"
  have f: "fetch_metadata c e ?w0 = (Inr (Some md), ?w1)"
    using assms(1) by (rule fetch_metadata_result)
  have fs1: "fs ?w1 = fs w" by (simp add: log_line_def issue_def)
  show ?thesis
    by (simp add: run_def run_body_def finish_def f fs1 assms(2,3)
          download_image_failed [OF assms(4)])
       (simp add: log_line_def issue_def)
qed

lemma run_file_exists:
  assumes "fst (fetch_metadata c e w) = Inr (Some md)"
    and "mkdir_parents (fs w) (year_dir_of c e) = (Inr (), f2)"
    and "path_exists f2 (save_path_of c e md)"
  shows "run c e w =
         (0, w\<lparr>fs := f2,
              http_calls := http_calls w @ [metadata_request (market c)],
              logs := logs w
                @ [(INFO, StartingCollector (market c)),
                   (DEBUG, FetchingMetadata),
                   (INFO, MetadataFetched (filename md)),
                   (INFO, FileAlreadyExists (save_path_of c e md))]\<rparr>)"
proof -
  let ?w0 = "log_line INFO (StartingCollector (market c)) w"
  let ?w1 = "log_line INFO (MetadataFetched (filename md))
        (issue (metadata_request (market c)) (log_line DEBUG FetchingMetadata ?w0))"
  have f: "fetch_metadata c e ?w0 = (Inr (Some md), ?w1)"
    using assms(1) by (rule fetch_metadata_result)
  have fs1: "fs ?w1 = fs w" by (simp add: log_line_def issue_def)
  show ?thesis
    by (simp add: run_def run_body_def finish_def f fs1 assms(2,3))
       (simp add: log_line_def issue_def)
qed

section \<open>The examples, evaluated\<close>

lemma ascii_eq_iff: "ascii s = ascii t \<longleftrightarrow> s = t"
proof -
  have "inj (of_char :: char \<Rightarrow> nat)" by (simp add: inj_def)
  then show ?thesis by (simp add: ascii_def inj_map_eq_map)
qed

lemmas parse_eval =
  parse_metadata_def body_of_def entry_of_def raising_def getitem0_def cut_def fmt_def
  ascii_def BING_BASE_URL_def clean_filename_def strip_def lstrip_def rstrip_def
  re_sub_forbidden_def forbidden_def isspace_def

lemma parse_example: "parse_metadata e example_body = Inr example_record"
  by (simp add: example_body_def example_entry_def example_caption_def example_record_def
      parse_eval)




lemma parse_question:
  "parse_metadata e
     (body_of (entry_of (ascii ''20240115'') (ascii ''/th?id=ABC123'') (ascii ''? a (x)'')))
   = Inr (example_record\<lparr>title := ascii ''? a (x)'', copyright := ascii ''? a (x)'',
                            filename := ascii ''2024-01-15_a.jpg''\<rparr>)"
  by (simp add: example_record_def parse_eval)

lemma fetch_parsed:
  assumes "api_server e (metadata_request (market c)) = Response 200 body"
    and "parse_metadata e body = Inr md"
  shows "fetch_metadata c e w =
     (Inr (Some md),
      log_line INFO (MetadataFetched (filename md))
        (issue (metadata_request (market c)) (log_line DEBUG FetchingMetadata w)))"
  using assms by (simp add: fetch_metadata_def Let_def raise_for_status_def)


lemma example_env_simps [simp]:
  "today_year example_env = 2024"
  "api_server example_env r = Response 200 example_body"
  "image_server example_env q = Response 200 [0xFF, 0xD8, 0xFF, 0xD9]"
  "today_year server_error_env = 2024"
  "api_server server_error_env r = Response 200 example_body"
  "image_server server_error_env q = Response 500 []"
  "today_year not_modified_env = 2024"
  "api_server not_modified_env r = Response 200 example_body"
  "image_server not_modified_env q = Response 304 []"
  "today_year (serving body) = 2024"
  "api_server (serving body) r = Response 200 body"
  "image_server (serving body) q = Response 200 [0xFF, 0xD8, 0xFF, 0xD9]"
  by (simp_all add: example_env_def server_error_env_def not_modified_env_def serving_def)

lemma example_fetch:
  "api_server e (metadata_request (market c)) = Response 200 example_body \<Longrightarrow>
   fetch_metadata c e w =
     (Inr (Some example_record),
      log_line INFO (MetadataFetched (ascii ''2024-01-15_Mountain View.jpg''))
        (issue (metadata_request (market c)) (log_line DEBUG FetchingMetadata w)))"
  using fetch_parsed [OF _ parse_example, of e c w] by (simp add: example_record_def)

lemma str_of_nat_2024: "str_of_nat 2024 = ascii ''2024''"
  by (simp add: str_of_nat.simps ascii_def)

lemma example_year_dir_of:
  "today_year e = 2024 \<Longrightarrow> year_dir_of example_collector e = example_year_dir"
  by (simp add: year_dir_of_def example_collector_def str_of_nat_2024 example_year_dir_def
      joinpath_def path_parts_def ascii_def)

lemma example_save_path_of:
  "today_year e = 2024 \<Longrightarrow> save_path_of example_collector e example_record = example_save_path"
  by (simp add: save_path_of_def example_year_dir_of example_record_def example_save_path_def
      joinpath_def path_parts_def ascii_def)

lemma example_mkdir:
  "mkdir_parents example_fs example_year_dir =
     (Inr (), example_fs\<lparr>dirs := insert example_year_dir
            (insert [ascii ''repo'', ascii ''archives''] (dirs example_fs))\<rparr>)"
  by (simp add: mkdir_parents.simps os_mkdir_def example_fs_def example_year_dir_def
      path_exists_def is_dir_def parent_def ascii_def)

text \<open>The example collector is the one the program builds in the example world.\<close>

lemma example_collector_init:
  "fst (init example_env (ascii ''archives'') (ascii ''en-US'') example_world)
     = example_collector"
proof -
  have "get_project_root example_fs [ascii ''repo'', ascii ''src'', ascii ''main.py'']
      default_anchor_files = [ascii ''repo'']"
    by (simp add: get_project_root_def parents_def search_root_find anchor_found_default
        has_marker_def path_exists_def is_dir_def example_fs_def upt_rec ascii_def)
  then show ?thesis
    by (simp add: init_def example_env_def example_world_def example_collector_def
        joinpath_anchor Let_def)
       (simp add: joinpath_def path_parts_def ascii_def)
qed

lemma example_writable_readme:
  "dirs f = dirs example_fs \<union> D \<Longrightarrow> readonly f = {} \<Longrightarrow>
   [ascii ''repo'', ascii ''README.md''] \<notin> D \<Longrightarrow>
   writable f (readme_path example_collector)"
  by (simp add: writable_def open_write_def example_collector_def is_dir_def example_fs_def
      ascii_def)


lemma example_open_write_image:
  assumes "dirs f = insert example_year_dir
            (insert [ascii ''repo'', ascii ''archives''] (dirs example_fs))"
    and "example_save_path \<notin> readonly f"
    and "example_year_dir \<notin> readonly f"
  shows "open_write f example_save_path d = Inr (f\<lparr>files := (files f)(example_save_path \<mapsto> d)\<rparr>)"
  using assms
  by (simp add: open_write_def example_save_path_def example_year_dir_def example_fs_def
      is_dir_def ascii_def)

lemma example_not_collected:
  "\<not> path_exists (example_fs\<lparr>dirs := insert example_year_dir
            (insert [ascii ''repo'', ascii ''archives''] (dirs example_fs))\<rparr>) example_save_path"
  by (simp add: path_exists_def is_dir_def example_fs_def example_save_path_def
      example_year_dir_def ascii_def)

lemma example_readme_absent: "files (fs example_world) (readme_path example_collector) = None"
  by (simp add: example_world_def example_fs_def example_collector_def ascii_def)


lemma encodable_append [simp]: "encodable (xs @ ys) \<longleftrightarrow> encodable xs \<and> encodable ys"
  by (simp add: encodable_def)

lemma encodable_Nil [simp]: "encodable []"
  by (simp add: encodable_def)

lemma encodable_Cons [simp]:
  "encodable (x # xs) \<longleftrightarrow> (x < 0xD800 \<or> 0xDFFF < x) \<and> encodable xs"
  by (simp add: encodable_def)

lemma encodable_ascii [simp]: "encodable (ascii s)"
proof -
  have "of_char c < (256 :: nat)" for c :: char
    by (simp add: of_char_def)
  then have "(of_char c :: nat) < 55296" for c :: char
    by (rule less_trans) simp
  then show ?thesis by (simp add: encodable_def ascii_def list_all_iff)
qed

lemma encodable_readme_content:
  "encodable (readme_content mkt d) \<longleftrightarrow>
     encodable mkt \<and> encodable (date_str d) \<and> encodable (title d)
     \<and> encodable (image_url d) \<and> encodable (copyright d)"
  by (auto simp: readme_content_def nl_def)

lemma encodable_examples [simp]:
  "encodable (readme_content (market example_collector) example_record)"
  "encodable (readme_content (market example_collector) next_day_record)"
  "\<not> encodable (readme_content (market example_collector) surrogate_record)"
  by (simp_all add: encodable_readme_content example_collector_def example_record_def
      next_day_record_def surrogate_record_def example_caption_def surrogate_caption_def)

lemma first_run_fs:
  "fs first_run_world =
     example_fs
       \<lparr>dirs := insert example_year_dir
                  (insert [ascii ''repo'', ascii ''archives''] (dirs example_fs)),
        files := (files example_fs)
           (example_save_path \<mapsto> Binary [0xFF, 0xD8, 0xFF, 0xD9],
            readme_path example_collector \<mapsto>
              Text (readme_content (market example_collector) example_record))\<rparr>"
proof -
  let ?f2 = "example_fs\<lparr>dirs := insert example_year_dir
            (insert [ascii ''repo'', ascii ''archives''] (dirs example_fs))\<rparr>"
  let ?f3 = "?f2\<lparr>files := (files ?f2)(example_save_path \<mapsto> Binary [0xFF, 0xD8, 0xFF, 0xD9])\<rparr>"
  have 1: "fst (fetch_metadata example_collector example_env example_world)
      = Inr (Some example_record)"
    by (simp add: example_fetch)
  have 2: "mkdir_parents (fs example_world) (year_dir_of example_collector example_env)
      = (Inr (), ?f2)"
    by (simp add: example_year_dir_of example_world_def example_mkdir)
  have 3: "\<not> path_exists ?f2 (save_path_of example_collector example_env example_record)"
    by (simp add: example_save_path_of example_not_collected)
  have 4: "image_server example_env (image_request (image_url example_record))
      = Response 200 [0xFF, 0xD8, 0xFF, 0xD9]"
    by simp
  have 5: "\<not> (400 \<le> (200::nat) \<and> (200::nat) < 600)" by simp
  have 6: "open_write ?f2 (save_path_of example_collector example_env example_record)
      (Binary [0xFF, 0xD8, 0xFF, 0xD9]) = Inr ?f3"
    by (simp add: example_save_path_of example_open_write_image example_fs_def)
  have 7: "writable ?f3 (readme_path example_collector)"
    by (rule example_writable_readme
          [where D = "{example_year_dir, [ascii ''repo'', ascii ''archives'']}"])
       (auto simp: example_fs_def example_year_dir_def ascii_def)
  have 8: "encodable (readme_content (market example_collector) example_record)" by simp
  from run_replaces_readme [OF 1 2 3 4 5 6 7 8] show ?thesis
    by (simp add: first_run_world_def)
qed




lemma same_filename: "filename other_url_record = filename example_record"
  by (simp add: other_url_record_def)





section \<open>The claims\<close>

text \<open>
  Claim C1, as amended. For every metadata response (with a status that
  \<open>raise_for_status\<close> accepts) whose first entry has a \<open>url\<close>, a string \<open>c\<close> as
  caption and a string of eight digits as \<open>enddate\<close>, the fetch returns a record whose
  filename is the date with hyphens inserted after characters 4 and 6, then \<open>_\<close>,
  then the part of \<open>c\<close> before the first \<open>(\<close>, trimmed, with the nine
  characters backslash, slash, asterisk, question mark, colon, double quote,
  less-than, greater-than and vertical bar (code points 92, 47, 42, 63, 58, 34, 60,
  62, 124) removed and trimmed once more, then \<open>.jpg\<close>. The filename holds none of the nine characters
  and has the shape \<open>YYYY-MM-DD_<prefix>.jpg\<close>.
\<close>

theorem derived_filename:
  assumes "api_server e (metadata_request (market col)) = Response status (JObj body)"
    and "status < 400 \<or> 600 \<le> status"
    and "body (ascii ''images'') = Some (JArr (JObj entry # others))"
    and "entry (ascii ''url'') = Some u"
    and "entry (ascii ''copyright'') = Some (JStr c)"
    and "entry (ascii ''enddate'') = Some (JStr d)"
    and "length d = 8" and "list_all is_digit d"
  shows "\<exists>md. fst (fetch_metadata col e w) = Inr (Some md)
     \<and> filename md = insert_hyphens d @ ascii ''_''
          @ strip (filter (\<lambda>x. x \<notin> {92, 47, 42, 63, 58, 34, 60, 62, 124})
                     (strip (before_first_paren c)))
          @ ascii ''.jpg''
     \<and> set (filename md) \<inter> {92, 47, 42, 63, 58, 34, 60, 62, 124} = {}
     \<and> dated_jpg (filename md)"
proof -
  let ?t = "clean_filename (before_first_paren c)"
  let ?f = "insert_hyphens d @ ascii ''_'' @ ?t @ ascii ''.jpg''"
  have p: "parse_metadata e (JObj body) =
     Inr \<lparr>date_str = insert_hyphens d, image_url = BING_BASE_URL @ fmt e u, title = c,
          copyright = c, filename = ?f\<rparr>"
    using assms(3-6) by (rule parse_metadata_fields)
  have "set ?f \<inter> set forbidden = {}"
    using insert_hyphens_clean [OF assms(8)] clean_filename_no_forbidden [of "before_first_paren c"]
    by (auto simp: ascii_def forbidden_def)
  then have "set ?f \<inter> {92, 47, 42, 63, 58, 34, 60, 62, 124} = {}"
    by (simp only: forbidden_set)
  moreover have "dated_jpg ?f"
    using assms(7,8) by (rule dated_jpg_shape)
  moreover have "fst (fetch_metadata col e w) =
     Inr (Some \<lparr>date_str = insert_hyphens d, image_url = BING_BASE_URL @ fmt e u, title = c,
          copyright = c, filename = ?f\<rparr>)"
    using assms(1,2) p by (auto simp: fetch_metadata_def raise_for_status_def Let_def)
  moreover have "?t = strip (filter (\<lambda>x. x \<notin> {92, 47, 42, 63, 58, 34, 60, 62, 124})
                     (strip (before_first_paren c)))"
  proof -
    have "?t = clean_filename (strip (before_first_paren c))"
      by (simp add: clean_filename_strip)
    then show ?thesis
      by (simp only: clean_filename_def re_sub_forbidden_def forbidden_set)
  qed
  ultimately show ?thesis by simp
qed

theorem derived_filename_witness:
  "length (ascii ''20240115'') = 8 \<and> list_all is_digit (ascii ''20240115'')
   \<and> (\<exists>md. fst (fetch_metadata example_collector example_env example_world) = Inr (Some md)
         \<and> filename md = insert_hyphens (ascii ''20240115'') @ ascii ''_''
              @ strip (filter (\<lambda>x. x \<notin> {92, 47, 42, 63, 58, 34, 60, 62, 124})
                         (strip (before_first_paren example_caption)))
              @ ascii ''.jpg''
         \<and> set (filename md) \<inter> {92, 47, 42, 63, 58, 34, 60, 62, 124} = {}
         \<and> dated_jpg (filename md))"
proof -
  let ?entry = "[ascii ''enddate'' \<mapsto> JStr (ascii ''20240115''),
                 ascii ''url'' \<mapsto> JStr (ascii ''/th?id=ABC123''),
                 ascii ''copyright'' \<mapsto> JStr example_caption]"
  let ?body = "[ascii ''images'' \<mapsto> JArr [JObj ?entry]]"
  have 1: "api_server example_env (metadata_request (market example_collector))
      = Response 200 (JObj ?body)"
    by (simp add: example_body_def example_entry_def body_of_def entry_of_def)
  have 2: "(200::nat) < 400 \<or> (600::nat) \<le> 200" by simp
  have 3: "?body (ascii ''images'') = Some (JArr (JObj ?entry # []))" by simp
  have 4: "?entry (ascii ''url'') = Some (JStr (ascii ''/th?id=ABC123''))"
    by (simp add: ascii_eq_iff)
  have 5: "?entry (ascii ''copyright'') = Some (JStr example_caption)"
    by (simp add: ascii_eq_iff)
  have 6: "?entry (ascii ''enddate'') = Some (JStr (ascii ''20240115''))"
    by (simp add: ascii_eq_iff)
  have 7: "length (ascii ''20240115'') = 8" by (simp add: ascii_def)
  have 8: "list_all is_digit (ascii ''20240115'')" by (simp add: ascii_def is_digit_def)
  from derived_filename [OF 1 2 3 4 5 6 7 8, of example_world] 7 8 show ?thesis by blast
qed

text \<open>
  The claim as first stated trims the part before the parenthesis and then removes
  the nine characters, and stops there. That fails where a removed character stood
  between the text and its surrounding whitespace: for the caption \<open>? a (x)\<close> it
  gives \<open>2024-01-15_ a.jpg\<close>, while the program, which trims again after the removal,
  gives \<open>2024-01-15_a.jpg\<close>.
\<close>

theorem trim_order_counterexample:
  "fetched_filename example_collector question_env example_world
     = Some (ascii ''2024-01-15_a.jpg'')
   \<and> claimed_filename (ascii ''20240115'') (ascii ''? a (x)'') = ascii ''2024-01-15_ a.jpg''
   \<and> ascii ''2024-01-15_a.jpg'' \<noteq> ascii ''2024-01-15_ a.jpg''"
proof -
  have "fst (fetch_metadata example_collector question_env example_world)
      = Inr (Some (example_record\<lparr>title := ascii ''? a (x)'', copyright := ascii ''? a (x)'',
                            filename := ascii ''2024-01-15_a.jpg''\<rparr>))"
    by (simp add: fetch_parsed [OF _ parse_question] question_env_def)
  then have "fetched_filename example_collector question_env example_world
     = Some (ascii ''2024-01-15_a.jpg'')"
    by (simp add: fetched_filename_def)
  moreover have "claimed_filename (ascii ''20240115'') (ascii ''? a (x)'')
      = ascii ''2024-01-15_ a.jpg''"
    by (simp add: claimed_filename_def insert_hyphens_def before_first_paren_def strip_def
        lstrip_def rstrip_def isspace_def ascii_def)
  ultimately show ?thesis by (simp add: ascii_eq_iff)
qed

text \<open>
  Claim C2. With the market code \<open>en-US\<close> and a metadata response that carries the
  example entry (\<open>enddate = "20240115"\<close>, \<open>url = "/th?id=ABC123"\<close>,
  \<open>copyright = "Mountain View (\<copyright> Example Corp)"\<close>), the metadata fetch returns a
  record whose date is \<open>2024-01-15\<close>, whose filename is
  \<open>2024-01-15_Mountain View.jpg\<close> and whose image URL is
  \<open>https://www.bing.com/th?id=ABC123\<close>, whatever the rest of the collector, of the
  environment and of the world is.
\<close>

theorem fetch_metadata_example:
  "\<exists>md. fst (fetch_metadata (c\<lparr>market := ascii ''en-US''\<rparr>)
                 (e\<lparr>api_server := \<lambda>r. Response 200 example_body\<rparr>) w) = Inr (Some md)
      \<and> date_str md = ascii ''2024-01-15''
      \<and> filename md = ascii ''2024-01-15_Mountain View.jpg''
      \<and> image_url md = ascii ''https://www.bing.com/th?id=ABC123''"
  by (simp add: fetch_metadata_def raise_for_status_def parse_example Let_def example_record_def)

text \<open>
  Claim C3, as amended. In a run that reaches the download (metadata fetched, year
  directory made, no file at the save path), when the image request fails by a
  network error or by an HTTP status from 400 to 599, the download logs and raises a
  \<open>RequestException\<close>, the top level of \<open>run\<close> logs it and the process ends with
  status 1; no file has changed, so the status document is as it was before the run.
\<close>

theorem failed_download_exits_nonzero:
  assumes "fst (fetch_metadata c e w) = Inr (Some md)"
    and "mkdir_parents (fs w) (year_dir_of c e) = (Inr (), f2)"
    and "\<not> path_exists f2 (save_path_of c e md)"
    and "http_failed (image_server e (image_request (image_url md)))"
  shows "fst (run c e w) = 1
     \<and> files (fs (snd (run c e w))) = files (fs w)
     \<and> fst (download_image e (image_url md) (save_path_of c e md) w')
         = Inl (http_error (image_server e (image_request (image_url md))))
     \<and> is_RequestException (http_error (image_server e (image_request (image_url md))))
     \<and> logs (snd (run c e w)) = logs w
          @ [(INFO, StartingCollector (market c)),
             (DEBUG, FetchingMetadata),
             (INFO, MetadataFetched (filename md)),
             (DEBUG, DownloadingImage (image_url md)),
             (ERROR, FailedToDownload
                (http_error (image_server e (image_request (image_url md))))),
             (ERROR, CriticalError
                (http_error (image_server e (image_request (image_url md)))))]"
proof -
  have "files f2 = files (fs w)"
    using mkdir_parents_frame [OF assms(2)] by simp
  then show ?thesis
    by (simp add: run_download_failed [OF assms] download_image_failed [OF assms(4)])
qed

theorem failed_download_exits_nonzero_witness:
  "http_failed (image_server server_error_env (image_request (image_url example_record)))
   \<and> fst (run example_collector server_error_env example_world) = 1
   \<and> files (fs (snd (run example_collector server_error_env example_world)))
       = files (fs example_world)
   \<and> last (logs (snd (run example_collector server_error_env example_world)))
       = (ERROR, CriticalError (HTTPError 500))"
proof -
  have 1: "fst (fetch_metadata example_collector server_error_env example_world)
      = Inr (Some example_record)"
    by (simp add: example_fetch)
  have 2: "mkdir_parents (fs example_world) (year_dir_of example_collector server_error_env)
      = (Inr (), example_fs\<lparr>dirs := insert example_year_dir
            (insert [ascii ''repo'', ascii ''archives''] (dirs example_fs))\<rparr>)"
    by (simp add: example_year_dir_of example_world_def example_mkdir)
  have 3: "\<not> path_exists (example_fs\<lparr>dirs := insert example_year_dir
            (insert [ascii ''repo'', ascii ''archives''] (dirs example_fs))\<rparr>)
          (save_path_of example_collector server_error_env example_record)"
    by (simp add: example_save_path_of example_not_collected)
  have 4: "http_failed (image_server server_error_env (image_request (image_url example_record)))"
    by simp
  from failed_download_exits_nonzero [OF 1 2 3 4] 4 show ?thesis by simp
qed

text \<open>
  The claim as first stated speaks of every status outside 200 to 299. That fails:
  \<open>raise_for_status\<close> accepts 304, so the body is saved as the image, the status
  document is rewritten and the exit status is 0.
\<close>

theorem non_2xx_download_counterexample:
  "image_server not_modified_env (image_request (image_url example_record)) = Response 304 []
   \<and> \<not> (200 \<le> (304::nat) \<and> (304::nat) < 300)
   \<and> fst (run example_collector not_modified_env example_world) = 0
   \<and> files (fs (snd (run example_collector not_modified_env example_world)))
        (readme_path example_collector)
       \<noteq> files (fs example_world) (readme_path example_collector)"
proof -
  let ?f2 = "example_fs\<lparr>dirs := insert example_year_dir
            (insert [ascii ''repo'', ascii ''archives''] (dirs example_fs))\<rparr>"
  let ?f3 = "?f2\<lparr>files := (files ?f2)(example_save_path \<mapsto> Binary [])\<rparr>"
  have 1: "fst (fetch_metadata example_collector not_modified_env example_world)
      = Inr (Some example_record)"
    by (simp add: example_fetch)
  have 2: "mkdir_parents (fs example_world) (year_dir_of example_collector not_modified_env)
      = (Inr (), ?f2)"
    by (simp add: example_year_dir_of example_world_def example_mkdir)
  have 3: "\<not> path_exists ?f2 (save_path_of example_collector not_modified_env example_record)"
    by (simp add: example_save_path_of example_not_collected)
  have 4: "image_server not_modified_env (image_request (image_url example_record))
      = Response 304 []"
    by simp
  have 5: "\<not> (400 \<le> (304::nat) \<and> (304::nat) < 600)" by simp
  have 6: "open_write ?f2 (save_path_of example_collector not_modified_env example_record)
      (Binary []) = Inr ?f3"
    by (simp add: example_save_path_of example_open_write_image example_fs_def)
  obtain w3 where w3: "fs w3 = ?f3"
    and r: "run example_collector not_modified_env example_world
        = finish (update_readme example_collector example_record w3)"
    using run_reaches_update [OF 1 2 3 4 5 6] by blast
  have "writable (fs w3) (readme_path example_collector)"
    by (rule example_writable_readme
          [where D = "{example_year_dir, [ascii ''repo'', ascii ''archives'']}"])
       (auto simp: w3 example_fs_def example_year_dir_def ascii_def)
  then have "update_readme example_collector example_record w3 =
     (Inr (), log_line INFO ReadmeUpdated
        (w3\<lparr>fs := (fs w3)\<lparr>files := (files (fs w3))(readme_path example_collector \<mapsto>
               Text (readme_content (market example_collector) example_record))\<rparr>\<rparr>))"
    by (rule update_readme_writable) simp
  with r 4 show ?thesis by (simp add: example_readme_absent finish_def log_line_def)
qed

text \<open>
  Claim C5. In a run whose metadata fetch succeeds and whose year directory exists
  or can be made, when an entry already exists at the save path the run ends with
  status 0
  after logging that the file exists; the only request issued is the metadata
  request (no image download), and every file is what it was: the existing image and
  the status document alike.
\<close>

theorem existing_file_skips_download:
  assumes "fst (fetch_metadata c e w) = Inr (Some md)"
    and "mkdir_parents (fs w) (year_dir_of c e) = (Inr (), f2)"
    and "path_exists (fs w) (save_path_of c e md)"
  shows "fst (run c e w) = 0
     \<and> files (fs (snd (run c e w))) = files (fs w)
     \<and> http_calls (snd (run c e w)) = http_calls w @ [metadata_request (market c)]
     \<and> logs (snd (run c e w)) = logs w
          @ [(INFO, StartingCollector (market c)),
             (DEBUG, FetchingMetadata),
             (INFO, MetadataFetched (filename md)),
             (INFO, FileAlreadyExists (save_path_of c e md))]"
proof -
  have "path_exists f2 (save_path_of c e md)"
    using assms(2,3) by (rule mkdir_parents_exists)
  moreover have "files f2 = files (fs w)"
    using mkdir_parents_frame [OF assms(2)] by simp
  ultimately show ?thesis
    by (simp add: run_file_exists [OF assms(1,2)])
qed

theorem existing_file_skips_download_witness:
  "path_exists (fs first_run_world) (save_path_of example_collector example_env example_record)
   \<and> fst (run example_collector example_env first_run_world) = 0
   \<and> files (fs (snd (run example_collector example_env first_run_world)))
       = files (fs first_run_world)
   \<and> http_calls (snd (run example_collector example_env first_run_world))
       = http_calls first_run_world @ [metadata_request (market example_collector)]"
proof -
  have 1: "fst (fetch_metadata example_collector example_env first_run_world)
      = Inr (Some example_record)"
    by (simp add: example_fetch)
  have 2: "mkdir_parents (fs first_run_world) (year_dir_of example_collector example_env)
      = (Inr (), fs first_run_world)"
    unfolding example_year_dir_of [of example_env, simplified]
    by (rule mkdir_parents_existing)
       (simp_all add: first_run_fs is_dir_def example_year_dir_def example_fs_def ascii_def)
  have 3: "path_exists (fs first_run_world)
      (save_path_of example_collector example_env example_record)"
    unfolding example_save_path_of [of example_env, simplified]
    by (simp add: path_exists_def first_run_fs example_collector_def
        example_save_path_def example_year_dir_def ascii_eq_iff)
  from existing_file_skips_download [OF 1 2 3] 3 show ?thesis by simp
qed

text \<open>
  Claim C8. The project root is the first path with a marker in the list that
  starts with the program's own location and continues with its ancestors, nearest
  first, up to the root of the filesystem; without any such path it is the parent of
  the program's location. The ancestors of \<open>dir/name\<close> are \<open>dir\<close> and the ancestors
  of \<open>dir\<close>; the root has none.
\<close>

theorem get_project_root_first_marker:
  "get_project_root f current_path default_anchor_files =
     (case find (has_marker f) (current_path # parents current_path) of
        Some p \<Rightarrow> p
      | None \<Rightarrow> parent current_path)
   \<and> parents (dir @ [name]) = dir # parents dir
   \<and> parents [] = []
   \<and> parent (dir @ [name]) = dir"
  by (simp add: get_project_root_def search_root_find anchor_found_default parents_snoc
      parents_root parent_def)

text \<open>
  Claim C9. When the image download fails (network error or HTTP error status), the
  download raises a \<open>RequestException\<close> after logging it and the filesystem is
  unchanged: the file is opened only after the response has arrived and its status
  has been checked, so not even an empty file appears at the save path.
\<close>

theorem failed_download_writes_nothing:
  assumes "http_failed (image_server e (image_request url))"
  shows "(\<exists>x. fst (download_image e url save_path w) = Inl x
            \<and> is_RequestException x
            \<and> snd (download_image e url save_path w) =
                log_line ERROR (FailedToDownload x)
                  (issue (image_request url) (log_line DEBUG (DownloadingImage url) w)))
     \<and> fs (snd (download_image e url save_path w)) = fs w"
  using assms
  by (cases "image_server e (image_request url)")
     (auto simp: download_image_def Let_def raise_for_status_def log_line_def issue_def)

theorem failed_download_writes_nothing_witness:
  "http_failed (image_server (example_env\<lparr>image_server := \<lambda>r. Response 500 []\<rparr>)
                 (image_request (ascii ''https://www.bing.com/th?id=ABC123'')))
   \<and> fs (snd (download_image (example_env\<lparr>image_server := \<lambda>r. Response 500 []\<rparr>)
               (ascii ''https://www.bing.com/th?id=ABC123'')
               [ascii ''repo'', ascii ''archives'', ascii ''2024'', ascii ''x.jpg'']
               example_world)) = example_fs"
proof -
  have h: "http_failed (image_server (example_env\<lparr>image_server := \<lambda>r. Response 500 []\<rparr>)
                 (image_request (ascii ''https://www.bing.com/th?id=ABC123'')))"
    by simp
  from failed_download_writes_nothing [OF h, of _ example_world] h show ?thesis
    by (simp add: example_world_def)
qed

text \<open>
  Claim C10. The filename sanitisation is idempotent: applied twice it gives what
  it gives applied once. Its result holds none of the nine forbidden characters and
  neither starts nor ends with whitespace.
\<close>

theorem clean_filename_idempotent:
  "clean_filename (clean_filename s) = clean_filename s
   \<and> set (clean_filename s) \<inter> set forbidden = {}
   \<and> takeWhile isspace (clean_filename s) = []
   \<and> takeWhile isspace (rev (clean_filename s)) = []"
  by (simp add: clean_filename_idem clean_filename_no_forbidden)
     (simp add: clean_filename_def strip_no_leading strip_no_trailing)









end
